theory Spec2Isabelle
  imports Main
begin

section \<open>The Ethereum recent-transactions asset (assets/transactions.py)\<close>

text \<open>
  The asset reads two environment variables, asks an Ethereum JSON-RPC node for the
  chain head, fetches the last \<open>N\<close> blocks with their transactions, flattens every
  transaction into a row and writes the rows to one Parquet file.

  The embedding passes the outside world explicitly: the environment, the node, the
  list of RPC calls issued so far, the log, and the file system. A raised exception is
  the \<open>Inl\<close> branch of the result; the world returned with it is the world at the
  moment of the raise.
\<close>

subsection \<open>Exceptions\<close>

datatype error =
    KeyError string
  | ValueError string
  | ProviderError string

subsection \<open>Data returned by the node\<close>

text \<open>
  A transaction is web3's \<open>AttributeDict\<close>. The attributes the code reads
  unconditionally are fields; the two EIP-1559 attributes are optional, \<open>None\<close>
  meaning that the attribute is absent from the object (a legacy transaction).
  \<open>tx_to\<close> is always present and holds Python's \<open>None\<close> for a contract creation.
\<close>

type_synonym bytes = string

record tx =
  tx_hash :: bytes
  tx_from :: string
  tx_to :: "string option"
  tx_value :: int
  tx_gas :: int
  maxFeePerGas :: "int option"
  maxPriorityFeePerGas :: "int option"
  tx_nonce :: int
  transactionIndex :: int

record block =
  timestamp :: int
  transactions :: "tx list"

text \<open>
  The node answers \<open>eth_blockNumber\<close> with an unsigned quantity and
  \<open>eth_getBlockByNumber\<close> with a block, or the call raises. The code issues every call
  at most once in a run, so the answers of a run are a function of the call.
\<close>

record provider =
  eth_block_number :: "error + nat"
  eth_get_block :: "int \<Rightarrow> error + block"

datatype rpc_call = BlockNumber | GetBlock int

subsection \<open>Rows and the run summary\<close>

text \<open>A cell of a fee column: Python's \<open>None\<close> or an integer.\<close>

datatype pyval = PyNone | PyInt int

record row =
  block_number :: int
  block_timestamp :: string
  row_hash :: string
  row_from :: string
  row_to :: "string option"
  value_wei :: int
  row_gas :: int
  max_fee_per_gas :: pyval
  max_priority_fee_per_gas :: pyval
  row_nonce :: int
  transaction_index :: int

record materialize_result =
  blocks_scanned :: int
  latest_block :: int
  num_transactions :: int
  preview :: string
  result_file :: string

subsection \<open>The world\<close>

text \<open>
  \<open>environ\<close> is \<open>os.environ\<close> as \<open>load_dotenv()\<close> leaves it when the module is
  imported. \<open>rpc_calls\<close> lists the calls sent to the node so far, oldest first.
  \<open>files\<close> maps a path to the record batch stored there (the data frame that
  \<open>to_parquet\<close> serialises); \<open>dirs\<close> is the set of existing directories. The working
  directory is writable: \<open>os.makedirs\<close> and \<open>to_parquet\<close> do not raise in this model.
\<close>

record world =
  environ :: "string \<rightharpoonup> string"
  node :: provider
  rpc_calls :: "rpc_call list"
  log_info :: "string list"
  dirs :: "string set"
  files :: "string \<rightharpoonup> row list"

text \<open>
  Library functions whose text is not part of the repository are parameters:
  \<open>isoformat_utc\<close> is \<open>datetime.fromtimestamp(t, tz=timezone.utc).isoformat()\<close>,
  \<open>hex_of\<close> is \<open>HexBytes.hex()\<close>, \<open>to_markdown\<close> is \<open>DataFrame.to_markdown()\<close>.
\<close>

record pylib =
  isoformat_utc :: "int \<Rightarrow> string"
  hex_of :: "bytes \<Rightarrow> string"
  to_markdown :: "row list \<Rightarrow> string"

subsection \<open>Python built-ins\<close>

text \<open>\<open>str(n)\<close> for an integer: its decimal digits, with a minus sign when negative.\<close>

definition digit_char :: "nat \<Rightarrow> char" where
  "digit_char d = ''0123456789'' ! d"

function str_nat :: "nat \<Rightarrow> string" where
  "str_nat n = (if n < 10 then [digit_char n] else str_nat (n div 10) @ [digit_char (n mod 10)])"
  by pat_completeness auto
termination
  by (relation "measure (\<lambda>n. n)") auto

definition str_int :: "int \<Rightarrow> string" where
  "str_int i = (if i < 0 then CHR ''-'' # str_nat (nat (- i)) else str_nat (nat i))"

text \<open>
  \<open>int(s)\<close> for a string, base 10: surrounding whitespace is stripped, one sign is
  allowed, and the digits may be grouped by single underscores. Anything else raises
  \<open>ValueError\<close>. The digits and the whitespace are the ASCII ones; the interpreter's
  limit on the length of a numeral is not modelled.
\<close>

definition is_space :: "char \<Rightarrow> bool" where
  "is_space c = (c \<in> set [CHR 0x09, CHR 0x0A, CHR 0x0B, CHR 0x0C, CHR 0x0D,
                            CHR 0x1C, CHR 0x1D, CHR 0x1E, CHR 0x1F, CHR 0x20])"

definition strip :: "string \<Rightarrow> string" where
  "strip s = rev (dropWhile is_space (rev (dropWhile is_space s)))"

definition is_digit :: "char \<Rightarrow> bool" where
  "is_digit c = (48 \<le> (of_char c :: nat) \<and> (of_char c :: nat) \<le> 57)"

definition digit_val :: "char \<Rightarrow> nat" where
  "digit_val c = of_char c - 48"

fun py_digits :: "bool \<Rightarrow> nat \<Rightarrow> string \<Rightarrow> nat option" where
  "py_digits prev acc [] = (if prev then Some acc else None)"
| "py_digits prev acc (c # cs) =
     (if is_digit c then py_digits True (acc * 10 + digit_val c) cs
      else if c = CHR ''_'' \<and> prev then py_digits False acc cs
      else None)"

definition py_int :: "string \<Rightarrow> error + int" where
  "py_int s =
     (case strip s of
        [] \<Rightarrow> Inl (ValueError s)
      | c # cs \<Rightarrow>
          (if c = CHR ''-'' then
             (case py_digits False 0 cs of
                None \<Rightarrow> Inl (ValueError s) | Some v \<Rightarrow> Inr (- int v))
           else if c = CHR ''+'' then
             (case py_digits False 0 cs of
                None \<Rightarrow> Inl (ValueError s) | Some v \<Rightarrow> Inr (int v))
           else
             (case py_digits False 0 (c # cs) of
                None \<Rightarrow> Inl (ValueError s) | Some v \<Rightarrow> Inr (int v))))"

text \<open>\<open>range(a, b)\<close>: the integers from \<open>a\<close> up to \<open>b - 1\<close>, ascending.\<close>

definition py_range :: "int \<Rightarrow> int \<Rightarrow> int list" where
  "py_range a b = [a..b - 1]"

text \<open>\<open>os.environ[k]\<close> raises \<open>KeyError\<close> on a missing key; \<open>os.getenv(k, d)\<close> does not.\<close>

definition os_environ_getitem :: "world \<Rightarrow> string \<Rightarrow> error + string" where
  "os_environ_getitem w k = (case environ w k of None \<Rightarrow> Inl (KeyError k) | Some v \<Rightarrow> Inr v)"

definition os_getenv :: "world \<Rightarrow> string \<Rightarrow> string \<Rightarrow> string" where
  "os_getenv w k d = (case environ w k of None \<Rightarrow> d | Some v \<Rightarrow> v)"

text \<open>\<open>getattr(tx, name, None)\<close> on an optional integer attribute.\<close>

definition getattr_or_none :: "int option \<Rightarrow> pyval" where
  "getattr_or_none a = (case a of None \<Rightarrow> PyNone | Some v \<Rightarrow> PyInt v)"

subsection \<open>The asset\<close>

text \<open>
  \<open>_get_w3\<close>: reads \<open>ETHEREUM_RPC_URL\<close>; building the \<open>Web3\<close> object sends
  nothing. The result stands for the client bound to that URL.
\<close>

definition get_w3 :: "world \<Rightarrow> error + string" where
  "get_w3 w = os_environ_getitem w ''ETHEREUM_RPC_URL''"

text \<open>The dictionary appended for one transaction (lines 47 to 61).\<close>

definition make_row :: "pylib \<Rightarrow> int \<Rightarrow> string \<Rightarrow> tx \<Rightarrow> row" where
  "make_row lib block_num ts_iso t =
     \<lparr> block_number = block_num,
       block_timestamp = ts_iso,
       row_hash = hex_of lib (tx_hash t),
       row_from = tx_from t,
       row_to = tx_to t,
       value_wei = tx_value t,
       row_gas = tx_gas t,
       max_fee_per_gas = getattr_or_none (maxFeePerGas t),
       max_priority_fee_per_gas = getattr_or_none (maxPriorityFeePerGas t),
       row_nonce = tx_nonce t,
       transaction_index = transactionIndex t \<rparr>"

text \<open>The inner loop: one \<open>rows.append\<close> per transaction, in the order of the list.\<close>

definition append_rows :: "pylib \<Rightarrow> int \<Rightarrow> block \<Rightarrow> row list \<Rightarrow> row list" where
  "append_rows lib block_num blk rows =
     fold (\<lambda>t acc. acc @ [make_row lib block_num (isoformat_utc lib (timestamp blk)) t])
          (transactions blk) rows"

definition ellipsis :: string where
  "ellipsis = [CHR 0xE2, CHR 0x80, CHR 0xA6]"

definition fetching_msg :: "int \<Rightarrow> int \<Rightarrow> string" where
  "fetching_msg start_block latest =
     ''Fetching transactions from block '' @ str_int start_block @ '' to '' @ str_int latest
       @ ellipsis"

definition processed_msg :: "int \<Rightarrow> nat \<Rightarrow> string" where
  "processed_msg block_num n =
     ''Processed up to block '' @ str_int block_num @ '' (rows: '' @ str_nat n @ '')''"

text \<open>
  The outer loop (lines 41 to 64) over the block numbers still to visit. A failing
  \<open>get_block\<close> ends the run at once with its exception.
\<close>

fun fetch_blocks :: "pylib \<Rightarrow> int \<Rightarrow> int list \<Rightarrow> world \<Rightarrow> row list
                      \<Rightarrow> world \<times> (error + row list)" where
  "fetch_blocks lib latest [] w rows = (w, Inr rows)"
| "fetch_blocks lib latest (block_num # rest) w rows =
     (let w1 = w\<lparr>rpc_calls := rpc_calls w @ [GetBlock block_num]\<rparr> in
      case eth_get_block (node w) block_num of
        Inl e \<Rightarrow> (w1, Inl e)
      | Inr blk \<Rightarrow>
          (let rows1 = append_rows lib block_num blk rows;
               w2 = (if block_num mod 5 = 0 \<or> block_num = latest
                     then w1\<lparr>log_info := log_info w1 @ [processed_msg block_num (length rows1)]\<rparr>
                     else w1)
           in fetch_blocks lib latest rest w2 rows1))"

definition out_dir :: string where
  "out_dir = ''data/ethereum/transactions''"

definition out_path :: "int \<Rightarrow> string" where
  "out_path latest = ''data/ethereum/transactions/tx_recent_until_'' @ str_int latest @ ''.parquet''"

text \<open>\<open>os.makedirs(out_dir, exist_ok=True)\<close>: the directory and its parents exist afterwards.\<close>

definition makedirs :: "world \<Rightarrow> world" where
  "makedirs w = w\<lparr>dirs := dirs w \<union> {''data'', ''data/ethereum'', out_dir}\<rparr>"

definition to_parquet :: "string \<Rightarrow> row list \<Rightarrow> world \<Rightarrow> world" where
  "to_parquet path rows w = w\<lparr>files := (files w)(path \<mapsto> rows)\<rparr>"

definition start_of :: "int \<Rightarrow> int \<Rightarrow> int" where
  "start_of latest n_blocks = max 0 (latest - n_blocks + 1)"

definition preview_md :: "pylib \<Rightarrow> row list \<Rightarrow> string" where
  "preview_md lib rows = (if rows = [] then ''(no rows)'' else to_markdown lib (take 10 rows))"

text \<open>Lines 66 to 83: write the batch and build the summary.\<close>

definition save :: "pylib \<Rightarrow> int \<Rightarrow> int \<Rightarrow> row list \<Rightarrow> world
                    \<Rightarrow> world \<times> (error + materialize_result)" where
  "save lib n_blocks latest rows w =
     (to_parquet (out_path latest) rows (makedirs w),
      Inr \<lparr> blocks_scanned = n_blocks,
            latest_block = latest,
            num_transactions = int (length rows),
            preview = preview_md lib rows,
            result_file = out_path latest \<rparr>)"

text \<open>Lines 34 to 83, once the client exists and \<open>n_blocks\<close> has been parsed.\<close>

definition fetch_and_save :: "pylib \<Rightarrow> int \<Rightarrow> world \<Rightarrow> world \<times> (error + materialize_result)" where
  "fetch_and_save lib n_blocks w =
     (let w1 = w\<lparr>rpc_calls := rpc_calls w @ [BlockNumber]\<rparr> in
      case eth_block_number (node w) of
        Inl e \<Rightarrow> (w1, Inl e)
      | Inr head \<Rightarrow>
          (let latest = int head;
               start_block = start_of latest n_blocks;
               w2 = w1\<lparr>log_info := log_info w1 @ [fetching_msg start_block latest]\<rparr>
           in case fetch_blocks lib latest (py_range start_block (latest + 1)) w2 [] of
                (w3, Inl e) \<Rightarrow> (w3, Inl e)
              | (w3, Inr rows) \<Rightarrow> save lib n_blocks latest rows w3))"

definition ethereum_transactions_recent :: "pylib \<Rightarrow> world
                                            \<Rightarrow> world \<times> (error + materialize_result)" where
  "ethereum_transactions_recent lib w =
     (case get_w3 w of
        Inl e \<Rightarrow> (w, Inl e)
      | Inr w3 \<Rightarrow>
          (case py_int (os_getenv w ''ETH_TX_RECENT_BLOCKS'' ''10'') of
             Inl e \<Rightarrow> (w, Inl e)
           | Inr n_blocks \<Rightarrow> fetch_and_save lib n_blocks w))"

subsection \<open>Vocabulary of the statements\<close>

text \<open>
  What the node holds for a list of block numbers: every transaction with its block
  number and its block, in the order of the list and, inside a block, in the order in
  which the node returns them.
\<close>

definition fetched_txs :: "provider \<Rightarrow> int list \<Rightarrow> (int \<times> block \<times> tx) list" where
  "fetched_txs nd bs =
     concat (map (\<lambda>b. case eth_get_block nd b of
                          Inl e \<Rightarrow> []
                        | Inr blk \<Rightarrow> map (\<lambda>t. (b, blk, t)) (transactions blk)) bs)"

definition tx_count :: "provider \<Rightarrow> int \<Rightarrow> nat" where
  "tx_count nd b = (case eth_get_block nd b of Inl e \<Rightarrow> 0 | Inr blk \<Rightarrow> length (transactions blk))"

text \<open>The row the code builds for one fetched transaction.\<close>

definition row_of :: "pylib \<Rightarrow> int \<times> block \<times> tx \<Rightarrow> row" where
  "row_of lib x =
     (case x of (b, blk, t) \<Rightarrow> make_row lib b (isoformat_utc lib (timestamp blk)) t)"

definition block_rows :: "pylib \<Rightarrow> provider \<Rightarrow> int \<Rightarrow> row list" where
  "block_rows lib nd b =
     (case eth_get_block nd b of
        Inl e \<Rightarrow> []
      | Inr blk \<Rightarrow> map (make_row lib b (isoformat_utc lib (timestamp blk))) (transactions blk))"

text \<open>The world after the head has been read and the first message logged.\<close>

definition started :: "world \<Rightarrow> int \<Rightarrow> int \<Rightarrow> world" where
  "started w N L = w\<lparr>rpc_calls := rpc_calls w @ [BlockNumber],
                     log_info := log_info w @ [fetching_msg (start_of L N) L]\<rparr>"

text \<open>The exception a call raises at a node, if it raises.\<close>

definition rpc_raises :: "provider \<Rightarrow> rpc_call \<Rightarrow> error option" where
  "rpc_raises nd c =
     (case c of
        BlockNumber \<Rightarrow> (case eth_block_number nd of Inl e \<Rightarrow> Some e | Inr n \<Rightarrow> None)
      | GetBlock b \<Rightarrow> (case eth_get_block nd b of Inl e \<Rightarrow> Some e | Inr blk \<Rightarrow> None))"

text \<open>The calls a run issues: what it appends to the calls already recorded.\<close>

definition issued_calls :: "pylib \<Rightarrow> world \<Rightarrow> rpc_call list" where
  "issued_calls lib w =
     drop (length (rpc_calls w)) (rpc_calls (fst (ethereum_transactions_recent lib w)))"

text \<open>
  The batch a completed run leaves in the file that its summary names; \<open>None\<close> when
  the run raises.
\<close>

definition written_rows :: "pylib \<Rightarrow> world \<Rightarrow> row list option" where
  "written_rows lib w =
     (case ethereum_transactions_recent lib w of
        (w', Inl e) \<Rightarrow> None
      | (w', Inr res) \<Rightarrow> files w' (result_file res))"

text \<open>
  The record schema of the specification, as a relation between a fetched transaction
  and a row: the two fee columns are null exactly when the transaction lacks the
  attribute and hold its value otherwise; every other column is copied.
\<close>

definition schema_ok :: "pylib \<Rightarrow> int \<times> block \<times> tx \<Rightarrow> row \<Rightarrow> bool" where
  "schema_ok lib x r =
     (case x of (b, blk, t) \<Rightarrow>
        block_number r = b \<and>
        block_timestamp r = isoformat_utc lib (timestamp blk) \<and>
        row_hash r = hex_of lib (tx_hash t) \<and>
        row_from r = tx_from t \<and>
        row_to r = tx_to t \<and>
        value_wei r = tx_value t \<and>
        row_gas r = tx_gas t \<and>
        (max_fee_per_gas r = PyNone \<longleftrightarrow> maxFeePerGas t = None) \<and>
        (case maxFeePerGas t of None \<Rightarrow> True | Some v \<Rightarrow> max_fee_per_gas r = PyInt v) \<and>
        (max_priority_fee_per_gas r = PyNone \<longleftrightarrow> maxPriorityFeePerGas t = None) \<and>
        (case maxPriorityFeePerGas t of
           None \<Rightarrow> True | Some v \<Rightarrow> max_priority_fee_per_gas r = PyInt v) \<and>
        row_nonce r = tx_nonce t \<and>
        transaction_index r = transactionIndex t)"

text \<open>Orderings of a batch.\<close>

definition block_ascending :: "row list \<Rightarrow> bool" where
  "block_ascending rows = sorted (map block_number rows)"

definition index_ascending :: "row list \<Rightarrow> bool" where
  "index_ascending rows =
     sorted_wrt (\<lambda>r s. block_number r = block_number s \<longrightarrow>
                         transaction_index r < transaction_index s) rows"

text \<open>The node returns the transactions of every block of the list in ascending index order.\<close>

definition provider_index_sorted :: "provider \<Rightarrow> int list \<Rightarrow> bool" where
  "provider_index_sorted nd bs =
     list_all (\<lambda>b. case eth_get_block nd b of
                      Inl e \<Rightarrow> True
                    | Inr blk \<Rightarrow> sorted_wrt (<) (map transactionIndex (transactions blk))) bs"

text \<open>Rows of one block are adjacent: between two rows of a block lies no row of another.\<close>

definition contiguous_blocks :: "row list \<Rightarrow> bool" where
  "contiguous_blocks rows =
     (\<forall>k\<in>{0..<length rows}. \<forall>j\<in>{0..<k}. \<forall>i\<in>{0..<j}.
        block_number (rows ! i) = block_number (rows ! k) \<longrightarrow>
        block_number (rows ! j) = block_number (rows ! i))"

subsection \<open>Example worlds\<close>

text \<open>
  An instance of the library parameters for the examples; the theorems hold for every
  instance.
\<close>

definition stub_lib :: pylib where
  "stub_lib = \<lparr> isoformat_utc = str_int, hex_of = (\<lambda>b. ''0x'' @ b),
                to_markdown = (\<lambda>rows. ''|'') \<rparr>"

definition legacy_tx :: "int \<Rightarrow> tx" where
  "legacy_tx i = \<lparr> tx_hash = ''aa'', tx_from = ''0xf1'', tx_to = None, tx_value = 5,
                   tx_gas = 21000, maxFeePerGas = None, maxPriorityFeePerGas = None,
                   tx_nonce = 7, transactionIndex = i \<rparr>"

definition eip1559_tx :: "int \<Rightarrow> tx" where
  "eip1559_tx i = \<lparr> tx_hash = ''bb'', tx_from = ''0xf2'', tx_to = Some ''0xt2'', tx_value = 0,
                    tx_gas = 50000, maxFeePerGas = Some 30, maxPriorityFeePerGas = Some 2,
                    tx_nonce = 1, transactionIndex = i \<rparr>"

text \<open>
  The scenario of the specification: the head is block 100; block 98 holds two
  transactions, block 100 five, every other block none.
\<close>

definition demo_block :: "int \<Rightarrow> block" where
  "demo_block n =
     (if n = 98 then \<lparr> timestamp = 1700000000, transactions = [legacy_tx 0, eip1559_tx 1] \<rparr>
      else if n = 100 then \<lparr> timestamp = 1700000024,
             transactions = [eip1559_tx 0, legacy_tx 1, eip1559_tx 2, eip1559_tx 3, legacy_tx 4] \<rparr>
      else \<lparr> timestamp = 1700000012, transactions = [] \<rparr>)"

definition demo_node :: provider where
  "demo_node = \<lparr> eth_block_number = Inr 100,
                 eth_get_block = (\<lambda>n. if 0 \<le> n \<and> n \<le> 100 then Inr (demo_block n)
                                      else Inl (ProviderError ''unknown block'')) \<rparr>"

definition demo_world :: world where
  "demo_world = \<lparr> environ = [''ETHEREUM_RPC_URL'' \<mapsto> ''http://localhost:8545'',
                             ''ETH_TX_RECENT_BLOCKS'' \<mapsto> ''3''],
                  node = demo_node, rpc_calls = [], log_info = [], dirs = {},
                  files = Map.empty \<rparr>"

definition demo_rows :: "row list" where
  "demo_rows =
     map (make_row stub_lib 98 ''1700000000'') [legacy_tx 0, eip1559_tx 1] @
     map (make_row stub_lib 100 ''1700000024'')
       [eip1559_tx 0, legacy_tx 1, eip1559_tx 2, eip1559_tx 3, legacy_tx 4]"

definition demo_result :: materialize_result where
  "demo_result = \<lparr> blocks_scanned = 3, latest_block = 100, num_transactions = 7,
                   preview = ''|'',
                   result_file = ''data/ethereum/transactions/tx_recent_until_100.parquet'' \<rparr>"

text \<open>The summary of the same chain when the block count is the default.\<close>

definition default_result :: materialize_result where
  "default_result = \<lparr> blocks_scanned = 10, latest_block = 100, num_transactions = 7,
                      preview = ''|'',
                      result_file = ''data/ethereum/transactions/tx_recent_until_100.parquet'' \<rparr>"

text \<open>The same chain behind a node whose call for block 99 times out.\<close>

definition flaky_node :: provider where
  "flaky_node = \<lparr> eth_block_number = Inr 100,
                  eth_get_block = (\<lambda>n. if n = 99 then Inl (ProviderError ''timeout'')
                                       else eth_get_block demo_node n) \<rparr>"

definition flaky_world :: world where
  "flaky_world = demo_world\<lparr>node := flaky_node\<rparr>"

text \<open>No variable is set.\<close>

definition no_config_world :: world where
  "no_config_world = demo_world\<lparr>environ := Map.empty\<rparr>"

text \<open>Only the endpoint is set.\<close>

definition default_world :: world where
  "default_world =
     demo_world\<lparr>environ := [''ETHEREUM_RPC_URL'' \<mapsto> ''http://localhost:8545'']\<rparr>"

text \<open>The variables are set under the names \<open>RPC_URL\<close> and \<open>RECENT_BLOCKS\<close>.\<close>

definition short_names_world :: world where
  "short_names_world =
     demo_world\<lparr>environ := [''RPC_URL'' \<mapsto> ''http://localhost:8545'',
                             ''RECENT_BLOCKS'' \<mapsto> ''3'']\<rparr>"

text \<open>The endpoint is set under the name the code reads, the block count as \<open>RECENT_BLOCKS\<close>.\<close>

definition recent_blocks_world :: world where
  "recent_blocks_world =
     demo_world\<lparr>environ := [''ETHEREUM_RPC_URL'' \<mapsto> ''http://localhost:8545'',
                             ''RECENT_BLOCKS'' \<mapsto> ''3'']\<rparr>"

text \<open>A block count that is not positive.\<close>

definition negative_count_world :: world where
  "negative_count_world =
     demo_world\<lparr>environ := [''ETHEREUM_RPC_URL'' \<mapsto> ''http://localhost:8545'',
                             ''ETH_TX_RECENT_BLOCKS'' \<mapsto> ''-2'']\<rparr>"

text \<open>A chain of one block whose two transactions the node returns in descending index order.\<close>

definition misordered_node :: provider where
  "misordered_node =
     \<lparr> eth_block_number = Inr 0,
       eth_get_block = (\<lambda>n. if n = 0
                            then Inr \<lparr> timestamp = 1700000000,
                                       transactions = [legacy_tx 1, eip1559_tx 0] \<rparr>
                            else Inl (ProviderError ''unknown block'')) \<rparr>"

definition misordered_world :: world where
  "misordered_world = demo_world\<lparr>node := misordered_node\<rparr>"

section \<open>Properties of the loop and of the run\<close>

text \<open>
  The defining equation of \<open>str_nat\<close> unfolds for ever on a variable; it is used on
  numerals only.
\<close>

declare str_nat.simps [simp del]

lemmas str_nat_numeral [simp] =
  str_nat.simps[of "numeral k"] str_nat.simps[of 0] str_nat.simps[of "Suc 0"] for k

subsection \<open>The loops\<close>

lemma fold_append_map: "fold (\<lambda>t acc. acc @ [f t]) xs acc = acc @ map f xs"
  by (induction xs arbitrary: acc) simp_all

lemma append_rows_eq:
  "append_rows lib b blk rows =
     rows @ map (make_row lib b (isoformat_utc lib (timestamp blk))) (transactions blk)"
  by (simp add: append_rows_def fold_append_map)

lemma fetch_blocks_frame:
  "fetch_blocks lib L bs w rows = (w', r) \<Longrightarrow>
     node w' = node w \<and> environ w' = environ w \<and> files w' = files w \<and> dirs w' = dirs w"
proof (induction bs arbitrary: w rows)
  case Nil
  then show ?case by simp
next
  case (Cons b bs)
  show ?case
  proof (cases "eth_get_block (node w) b")
    case (Inl e)
    with Cons.prems show ?thesis by (auto simp: Let_def)
  next
    case (Inr blk)
    with Cons.prems Cons.IH show ?thesis
      by (auto simp: Let_def split: if_splits dest!: Cons.IH)
  qed
qed

lemma fetch_blocks_ok:
  "\<forall>b\<in>set bs. rpc_raises (node w) (GetBlock b) = None \<Longrightarrow>
   snd (fetch_blocks lib L bs w rows) = Inr (rows @ concat (map (block_rows lib (node w)) bs)) \<and>
   rpc_calls (fst (fetch_blocks lib L bs w rows)) = rpc_calls w @ map GetBlock bs"
proof (induction bs arbitrary: w rows)
  case Nil
  then show ?case by simp
next
  case (Cons b bs)
  from Cons.prems obtain blk where blk: "eth_get_block (node w) b = Inr blk"
    by (auto simp: rpc_raises_def split: sum.splits)
  from Cons.prems have rest: "\<forall>b\<in>set bs. rpc_raises (node w) (GetBlock b) = None" by simp
  show ?case
    using blk rest Cons.IH
    by (simp add: Let_def append_rows_eq block_rows_def)
qed

lemma fetch_blocks_fail:
  "b \<in> set bs \<Longrightarrow> rpc_raises (node w) (GetBlock b) \<noteq> None \<Longrightarrow>
   \<exists>pre c e post. bs = pre @ c # post \<and> (\<forall>x\<in>set pre. rpc_raises (node w) (GetBlock x) = None) \<and>
     rpc_raises (node w) (GetBlock c) = Some e \<and>
     snd (fetch_blocks lib L bs w rows) = Inl e \<and>
     rpc_calls (fst (fetch_blocks lib L bs w rows)) = rpc_calls w @ map GetBlock (pre @ [c])"
proof (induction bs arbitrary: w rows)
  case Nil
  then show ?case by simp
next
  case (Cons a bs)
  show ?case
  proof (cases "eth_get_block (node w) a")
    case (Inl e)
    then have "a # bs = [] @ a # bs \<and> (\<forall>x\<in>set []. rpc_raises (node w) (GetBlock x) = None) \<and>
     rpc_raises (node w) (GetBlock a) = Some e \<and>
     snd (fetch_blocks lib L (a # bs) w rows) = Inl e \<and>
     rpc_calls (fst (fetch_blocks lib L (a # bs) w rows)) = rpc_calls w @ map GetBlock ([] @ [a])"
      by (simp add: rpc_raises_def)
    then show ?thesis by blast
  next
    case (Inr blk)
    with Cons.prems have "b \<in> set bs" by (auto simp: rpc_raises_def)
    define w2 where "w2 = (if a mod 5 = 0 \<or> a = L
         then w\<lparr>rpc_calls := rpc_calls w @ [GetBlock a],
                log_info := log_info w @ [processed_msg a (length (append_rows lib a blk rows))]\<rparr>
         else w\<lparr>rpc_calls := rpc_calls w @ [GetBlock a]\<rparr>)"
    have n2: "node w2 = node w" and c2: "rpc_calls w2 = rpc_calls w @ [GetBlock a]"
      by (simp_all add: w2_def)
    have step: "fetch_blocks lib L (a # bs) w rows = fetch_blocks lib L bs w2 (append_rows lib a blk rows)"
      using Inr by (simp add: Let_def w2_def)
    from Cons.IH[OF \<open>b \<in> set bs\<close>, of w2 "append_rows lib a blk rows"] Cons.prems(2) n2
    obtain pre c e post where
      h: "bs = pre @ c # post" "\<forall>x\<in>set pre. rpc_raises (node w) (GetBlock x) = None"
         "rpc_raises (node w) (GetBlock c) = Some e"
         "snd (fetch_blocks lib L bs w2 (append_rows lib a blk rows)) = Inl e"
         "rpc_calls (fst (fetch_blocks lib L bs w2 (append_rows lib a blk rows))) = rpc_calls w2 @ map GetBlock (pre @ [c])"
      by auto
    have "a # bs = (a # pre) @ c # post \<and> (\<forall>x\<in>set (a # pre). rpc_raises (node w) (GetBlock x) = None) \<and>
     rpc_raises (node w) (GetBlock c) = Some e \<and>
     snd (fetch_blocks lib L (a # bs) w rows) = Inl e \<and>
     rpc_calls (fst (fetch_blocks lib L (a # bs) w rows)) = rpc_calls w @ map GetBlock ((a # pre) @ [c])"
      using h step c2 Inr by (simp add: rpc_raises_def)
    then show ?thesis by blast
  qed
qed

lemma started_simps [simp]:
  "node (started w N L) = node w" "environ (started w N L) = environ w"
  "files (started w N L) = files w" "dirs (started w N L) = dirs w"
  "rpc_calls (started w N L) = rpc_calls w @ [BlockNumber]"
  by (simp_all add: started_def)

lemma fetch_and_save_head_fail:
  "eth_block_number (node w) = Inl e \<Longrightarrow>
   fetch_and_save lib N w = (w\<lparr>rpc_calls := rpc_calls w @ [BlockNumber]\<rparr>, Inl e)"
  by (simp add: fetch_and_save_def)

lemma fetch_and_save_unfold:
  "eth_block_number (node w) = Inr L \<Longrightarrow>
   fetch_and_save lib N w =
     (case fetch_blocks lib (int L) [start_of (int L) N..int L] (started w N (int L)) [] of
        (w3, Inl e) \<Rightarrow> (w3, Inl e)
      | (w3, Inr rows) \<Rightarrow> save lib N (int L) rows w3)"
  by (simp add: fetch_and_save_def Let_def py_range_def started_def)

lemma fetch_and_save_ok:
  assumes head: "eth_block_number (node w) = Inr L"
    and ok: "\<forall>b\<in>set [start_of (int L) N..int L]. rpc_raises (node w) (GetBlock b) = None"
    and rows: "rows = concat (map (block_rows lib (node w)) [start_of (int L) N..int L])"
    and run: "fetch_and_save lib N w = (w', r)"
  shows "r = Inr \<lparr> blocks_scanned = N, latest_block = int L,
                    num_transactions = int (length rows), preview = preview_md lib rows,
                    result_file = out_path (int L) \<rparr>"
    and "files w' = (files w)(out_path (int L) \<mapsto> rows)"
    and "dirs w' = dirs w \<union> {''data'', ''data/ethereum'', out_dir}"
    and "rpc_calls w' = rpc_calls w @ BlockNumber # map GetBlock [start_of (int L) N..int L]"
    and "node w' = node w" and "environ w' = environ w"
proof -
  let ?bs = "[start_of (int L) N..int L]"
  let ?w2 = "started w N (int L)"
  obtain w3 r3 where f: "fetch_blocks lib (int L) ?bs ?w2 [] = (w3, r3)"
    by (cases "fetch_blocks lib (int L) ?bs ?w2 []")
  from ok have ok2: "\<forall>b\<in>set ?bs. rpc_raises (node ?w2) (GetBlock b) = None" by simp
  from fetch_blocks_ok[OF ok2, of lib "int L" "[]"] f rows
  have r3: "r3 = Inr rows" and c3: "rpc_calls w3 = rpc_calls w @ BlockNumber # map GetBlock ?bs"
    by simp_all
  from fetch_blocks_frame[OF f]
  have fr: "node w3 = node w" "environ w3 = environ w" "files w3 = files w" "dirs w3 = dirs w"
    by simp_all
  from run f r3 have eq: "(w', r) = save lib N (int L) rows w3"
    by (simp add: fetch_and_save_unfold[OF head])
  then have w': "w' = to_parquet (out_path (int L)) rows (makedirs w3)"
    and r: "r = Inr \<lparr> blocks_scanned = N, latest_block = int L,
                    num_transactions = int (length rows), preview = preview_md lib rows,
                    result_file = out_path (int L) \<rparr>"
    by (simp_all add: save_def)
  show "r = Inr \<lparr> blocks_scanned = N, latest_block = int L,
                    num_transactions = int (length rows), preview = preview_md lib rows,
                    result_file = out_path (int L) \<rparr>" by (rule r)
  show "files w' = (files w)(out_path (int L) \<mapsto> rows)"
    by (simp add: w' to_parquet_def makedirs_def fr)
  show "dirs w' = dirs w \<union> {''data'', ''data/ethereum'', out_dir}"
    by (simp add: w' to_parquet_def makedirs_def fr)
  show "rpc_calls w' = rpc_calls w @ BlockNumber # map GetBlock ?bs"
    by (simp add: w' to_parquet_def makedirs_def c3)
  show "node w' = node w" by (simp add: w' to_parquet_def makedirs_def fr)
  show "environ w' = environ w" by (simp add: w' to_parquet_def makedirs_def fr)
qed

lemma fetch_and_save_block_fail:
  assumes head: "eth_block_number (node w) = Inr L"
    and bad: "b \<in> set [start_of (int L) N..int L]" "rpc_raises (node w) (GetBlock b) \<noteq> None"
    and run: "fetch_and_save lib N w = (w', r)"
  shows "\<exists>pre c e post. [start_of (int L) N..int L] = pre @ c # post \<and>
           (\<forall>x\<in>set pre. rpc_raises (node w) (GetBlock x) = None) \<and>
           rpc_raises (node w) (GetBlock c) = Some e \<and> r = Inl e \<and>
           rpc_calls w' = rpc_calls w @ BlockNumber # map GetBlock (pre @ [c]) \<and>
           files w' = files w \<and> dirs w' = dirs w"
proof -
  let ?bs = "[start_of (int L) N..int L]"
  let ?w2 = "started w N (int L)"
  obtain w3 r3 where f: "fetch_blocks lib (int L) ?bs ?w2 [] = (w3, r3)"
    by (cases "fetch_blocks lib (int L) ?bs ?w2 []")
  from bad have bad2: "rpc_raises (node ?w2) (GetBlock b) \<noteq> None" by simp
  from fetch_blocks_fail[OF bad(1) bad2, of lib "int L" "[]"] f
  obtain pre c e post where
    h: "?bs = pre @ c # post" "\<forall>x\<in>set pre. rpc_raises (node w) (GetBlock x) = None"
       "rpc_raises (node w) (GetBlock c) = Some e" "r3 = Inl e"
       "rpc_calls w3 = rpc_calls w @ BlockNumber # map GetBlock (pre @ [c])"
    by auto
  from fetch_blocks_frame[OF f] have fr: "files w3 = files w" "dirs w3 = dirs w" by simp_all
  from run f h(4) have "w' = w3" "r = Inl e"
    by (simp_all add: fetch_and_save_unfold[OF head])
  with h fr show ?thesis by blast
qed

subsection \<open>The configuration\<close>

lemma run_no_url:
  "environ w ''ETHEREUM_RPC_URL'' = None \<Longrightarrow>
   ethereum_transactions_recent lib w = (w, Inl (KeyError ''ETHEREUM_RPC_URL''))"
  by (simp add: ethereum_transactions_recent_def get_w3_def os_environ_getitem_def)

lemma run_bad_int:
  "environ w ''ETHEREUM_RPC_URL'' = Some u \<Longrightarrow>
   py_int (os_getenv w ''ETH_TX_RECENT_BLOCKS'' ''10'') = Inl e \<Longrightarrow>
   ethereum_transactions_recent lib w = (w, Inl e)"
  by (simp add: ethereum_transactions_recent_def get_w3_def os_environ_getitem_def)

lemma run_parsed:
  "environ w ''ETHEREUM_RPC_URL'' = Some u \<Longrightarrow>
   py_int (os_getenv w ''ETH_TX_RECENT_BLOCKS'' ''10'') = Inr N \<Longrightarrow>
   ethereum_transactions_recent lib w = fetch_and_save lib N w"
  by (simp add: ethereum_transactions_recent_def get_w3_def os_environ_getitem_def)

subsection \<open>The batch in terms of what the node holds\<close>

lemma block_rows_fetched:
  "concat (map (block_rows lib nd) bs) = map (row_of lib) (fetched_txs nd bs)"
  by (induction bs) (simp_all add: fetched_txs_def block_rows_def row_of_def split: sum.splits)

lemma length_fetched_txs: "length (fetched_txs nd bs) = sum_list (map (tx_count nd) bs)"
  by (induction bs) (simp_all add: fetched_txs_def tx_count_def split: sum.splits)

lemma fetched_txs_Cons:
  "fetched_txs nd (b # bs) =
     (case eth_get_block nd b of Inl e \<Rightarrow> [] | Inr blk \<Rightarrow> map (\<lambda>t. (b, blk, t)) (transactions blk))
     @ fetched_txs nd bs"
  by (simp add: fetched_txs_def)

lemma fetched_txs_mem:
  "(b, blk, t) \<in> set (fetched_txs nd bs) \<Longrightarrow>
     b \<in> set bs \<and> eth_get_block nd b = Inr blk \<and> t \<in> set (transactions blk)"
  by (induction bs) (auto simp: fetched_txs_Cons fetched_txs_def split: sum.splits)

lemma sorted_fst_fetched_txs: "sorted bs \<Longrightarrow> sorted (map fst (fetched_txs nd bs))"
proof (induction bs)
  case Nil
  then show ?case by (simp add: fetched_txs_def)
next
  case (Cons b bs)
  then have "sorted (map fst (fetched_txs nd bs))" and le: "\<forall>x\<in>set bs. b \<le> x" by simp_all
  moreover have "\<forall>y\<in>set (fetched_txs nd bs). b \<le> fst y"
    using le fetched_txs_mem[of _ _ _ nd bs] by fastforce
  ultimately show ?case
    by (auto simp: fetched_txs_Cons sorted_append o_def map_replicate_const split: sum.splits)
qed

lemma block_number_row_of [simp]: "block_number (row_of lib x) = fst x"
  by (cases x) (simp add: row_of_def make_row_def)

lemma transaction_index_row_of [simp]:
  "transaction_index (row_of lib x) = transactionIndex (snd (snd x))"
  by (cases x) (simp add: row_of_def make_row_def)

lemma schema_ok_row_of: "schema_ok lib x (row_of lib x)"
  by (cases x) (simp add: schema_ok_def row_of_def make_row_def getattr_or_none_def split: option.splits)

lemma index_sorted_fetched_txs:
  "sorted_wrt (<) bs \<Longrightarrow> provider_index_sorted nd bs \<Longrightarrow>
   sorted_wrt (\<lambda>x y. fst x = fst y \<longrightarrow>
                 transactionIndex (snd (snd x)) < transactionIndex (snd (snd y)))
     (fetched_txs nd bs)"
proof (induction bs)
  case Nil
  then show ?case by (simp add: fetched_txs_def)
next
  case (Cons b bs)
  then have IH: "sorted_wrt (\<lambda>x y. fst x = fst y \<longrightarrow>
                 transactionIndex (snd (snd x)) < transactionIndex (snd (snd y)))
     (fetched_txs nd bs)"
    and lt: "\<forall>x\<in>set bs. b < x"
    by (simp_all add: provider_index_sorted_def)
  have later: "\<forall>y\<in>set (fetched_txs nd bs). b < fst y"
    using lt fetched_txs_mem[of _ _ _ nd bs] by fastforce
  show ?case
  proof (cases "eth_get_block nd b")
    case (Inl e)
    then show ?thesis using IH by (simp add: fetched_txs_Cons)
  next
    case (Inr blk)
    with Cons.prems(2)
    have s: "sorted_wrt (<) (map transactionIndex (transactions blk))"
      by (simp add: provider_index_sorted_def)
    have seg: "sorted_wrt (\<lambda>x y. fst x = fst y \<longrightarrow>
                 transactionIndex (snd (snd x)) < transactionIndex (snd (snd y)))
               (map (\<lambda>t. (b, blk, t)) (transactions blk))"
      using s by (simp add: sorted_wrt_map)
    show ?thesis
      using Inr IH seg later by (auto simp: fetched_txs_Cons sorted_wrt_append)
  qed
qed

subsection \<open>Completed runs\<close>

text \<open>
  When the endpoint is configured, the block count parses, the head is read and every
  block of the window is served, the run completes, and its effects are these.
\<close>

lemma run_ok:
  assumes url: "environ w ''ETHEREUM_RPC_URL'' = Some u"
    and parse: "py_int (os_getenv w ''ETH_TX_RECENT_BLOCKS'' ''10'') = Inr N"
    and head: "eth_block_number (node w) = Inr L"
    and ok: "\<forall>b\<in>set [start_of (int L) N..int L]. rpc_raises (node w) (GetBlock b) = None"
    and rows: "rows = map (row_of lib) (fetched_txs (node w) [start_of (int L) N..int L])"
  shows "snd (ethereum_transactions_recent lib w) =
           Inr \<lparr> blocks_scanned = N, latest_block = int L,
                 num_transactions = int (length rows), preview = preview_md lib rows,
                 result_file = out_path (int L) \<rparr>"
    and "files (fst (ethereum_transactions_recent lib w)) = (files w)(out_path (int L) \<mapsto> rows)"
    and "dirs (fst (ethereum_transactions_recent lib w)) =
           dirs w \<union> {''data'', ''data/ethereum'', out_dir}"
    and "issued_calls lib w = BlockNumber # map GetBlock [start_of (int L) N..int L]"
    and "node (fst (ethereum_transactions_recent lib w)) = node w"
    and "environ (fst (ethereum_transactions_recent lib w)) = environ w"
    and "written_rows lib w = Some rows"
proof -
  let ?run = "ethereum_transactions_recent lib w"
  have eq: "?run = fetch_and_save lib N w" by (rule run_parsed[OF url parse])
  obtain w' r where wr: "fetch_and_save lib N w = (w', r)" by (cases "fetch_and_save lib N w")
  have rows': "rows = concat (map (block_rows lib (node w)) [start_of (int L) N..int L])"
    by (simp add: rows block_rows_fetched)
  note facts = fetch_and_save_ok[OF head ok rows' wr]
  show r: "snd ?run = Inr \<lparr> blocks_scanned = N, latest_block = int L,
                 num_transactions = int (length rows), preview = preview_md lib rows,
                 result_file = out_path (int L) \<rparr>"
    using facts(1) by (simp add: eq wr)
  show f: "files (fst ?run) = (files w)(out_path (int L) \<mapsto> rows)"
    using facts(2) by (simp add: eq wr)
  show "dirs (fst ?run) = dirs w \<union> {''data'', ''data/ethereum'', out_dir}"
    using facts(3) by (simp add: eq wr)
  show "issued_calls lib w = BlockNumber # map GetBlock [start_of (int L) N..int L]"
    using facts(4) by (simp add: issued_calls_def eq wr)
  show "node (fst ?run) = node w" using facts(5) by (simp add: eq wr)
  show "environ (fst ?run) = environ w" using facts(6) by (simp add: eq wr)
  show "written_rows lib w = Some rows"
    using facts(1,2) by (simp add: written_rows_def eq wr)
qed

text \<open>Conversely, a run completes only in that way.\<close>

lemma completed_run:
  assumes fin: "snd (ethereum_transactions_recent lib w) = Inr res"
  obtains u N L where
    "environ w ''ETHEREUM_RPC_URL'' = Some u"
    "py_int (os_getenv w ''ETH_TX_RECENT_BLOCKS'' ''10'') = Inr N"
    "eth_block_number (node w) = Inr L"
    "\<forall>b\<in>set [start_of (int L) N..int L]. rpc_raises (node w) (GetBlock b) = None"
proof -
  from fin obtain u where url: "environ w ''ETHEREUM_RPC_URL'' = Some u"
    by (cases "environ w ''ETHEREUM_RPC_URL''") (simp_all add: run_no_url)
  from fin url obtain N where parse: "py_int (os_getenv w ''ETH_TX_RECENT_BLOCKS'' ''10'') = Inr N"
    by (cases "py_int (os_getenv w ''ETH_TX_RECENT_BLOCKS'' ''10'')") (simp_all add: run_bad_int)
  note eq = run_parsed[OF url parse, of lib]
  from fin eq obtain L where head: "eth_block_number (node w) = Inr L"
    by (cases "eth_block_number (node w)") (simp_all add: fetch_and_save_head_fail)
  have ok: "\<forall>b\<in>set [start_of (int L) N..int L]. rpc_raises (node w) (GetBlock b) = None"
  proof (rule ccontr)
    assume "\<not> ?thesis"
    then obtain b where b: "b \<in> set [start_of (int L) N..int L]"
      "rpc_raises (node w) (GetBlock b) \<noteq> None" by blast
    obtain w' r where wr: "fetch_and_save lib N w = (w', r)" by (cases "fetch_and_save lib N w")
    from fetch_and_save_block_fail[OF head b wr] obtain e where "r = Inl e" by blast
    with fin eq wr show False by simp
  qed
  from url parse head ok show thesis by (rule that)
qed

text \<open>What a completed run wrote, given the block count and the head it read.\<close>

lemma completed_batch:
  assumes parse: "py_int (os_getenv w ''ETH_TX_RECENT_BLOCKS'' ''10'') = Inr N"
    and head: "eth_block_number (node w) = Inr L"
    and fin: "snd (ethereum_transactions_recent lib w) = Inr res"
    and rows: "rows = map (row_of lib) (fetched_txs (node w) [max 0 (int L - N + 1)..int L])"
  shows "written_rows lib w = Some rows"
    and "res = \<lparr> blocks_scanned = N, latest_block = int L,
                 num_transactions = int (length rows), preview = preview_md lib rows,
                 result_file = out_path (int L) \<rparr>"
    and "files (fst (ethereum_transactions_recent lib w)) = (files w)(out_path (int L) \<mapsto> rows)"
    and "\<forall>b\<in>set [max 0 (int L - N + 1)..int L]. rpc_raises (node w) (GetBlock b) = None"
proof -
  from fin obtain u N' L' where
    f: "environ w ''ETHEREUM_RPC_URL'' = Some u"
       "py_int (os_getenv w ''ETH_TX_RECENT_BLOCKS'' ''10'') = Inr N'"
       "eth_block_number (node w) = Inr L'"
       "\<forall>b\<in>set [start_of (int L') N'..int L']. rpc_raises (node w) (GetBlock b) = None"
    by (rule completed_run)
  with parse head have same: "N' = N" "L' = L" by simp_all
  have rows': "rows = map (row_of lib) (fetched_txs (node w) [start_of (int L') N'..int L'])"
    by (simp add: rows same start_of_def)
  note facts = run_ok[OF f rows']
  show "written_rows lib w = Some rows" by (rule facts(7))
  show "res = \<lparr> blocks_scanned = N, latest_block = int L,
                 num_transactions = int (length rows), preview = preview_md lib rows,
                 result_file = out_path (int L) \<rparr>"
    using facts(1) fin by (simp add: same)
  show "files (fst (ethereum_transactions_recent lib w)) = (files w)(out_path (int L) \<mapsto> rows)"
    using facts(2) by (simp add: same)
  show "\<forall>b\<in>set [max 0 (int L - N + 1)..int L]. rpc_raises (node w) (GetBlock b) = None"
    using f(4) by (simp add: same start_of_def)
qed

lemma issued_calls_unchanged:
  "ethereum_transactions_recent lib w = (w, r) \<Longrightarrow> issued_calls lib w = []"
  by (simp add: issued_calls_def)

lemma written_rows_raised:
  "snd (ethereum_transactions_recent lib w) = Inl e \<Longrightarrow> written_rows lib w = None"
  by (cases "ethereum_transactions_recent lib w") (simp add: written_rows_def)

lemma sorted_plateau:
  fixes xs :: "int list"
  assumes "sorted xs" "i \<le> j" "j \<le> k" "k < length xs" "xs ! i = xs ! k"
  shows "xs ! j = xs ! i"
proof -
  have "xs ! i \<le> xs ! j" using assms by (intro sorted_nth_mono) simp_all
  moreover have "xs ! j \<le> xs ! k" using assms by (intro sorted_nth_mono) simp_all
  ultimately show ?thesis using assms(5) by simp
qed

lemma contiguous_if_sorted:
  assumes "sorted (map block_number rows)"
  shows "contiguous_blocks rows"
  unfolding contiguous_blocks_def
proof (intro ballI impI)
  fix i j k
  assume k: "k \<in> {0..<length rows}" and j: "j \<in> {0..<k}" and i: "i \<in> {0..<j}"
    and eq: "block_number (rows ! i) = block_number (rows ! k)"
  then have "map block_number rows ! j = map block_number rows ! i"
    by (intro sorted_plateau[OF assms, of i j k]) simp_all
  with i j k show "block_number (rows ! j) = block_number (rows ! i)" by simp
qed

subsection \<open>The example worlds, evaluated\<close>

lemma py_int_10: "py_int ''10'' = Inr 10"
  by (simp add: py_int_def strip_def is_space_def is_digit_def digit_val_def)

lemma py_int_3: "py_int ''3'' = Inr 3"
  by (simp add: py_int_def strip_def is_space_def is_digit_def digit_val_def)

lemma py_int_minus_2: "py_int ''-2'' = Inr (- 2)"
  by (simp add: py_int_def strip_def is_space_def is_digit_def digit_val_def)

lemma out_path_100: "out_path 100 = ''data/ethereum/transactions/tx_recent_until_100.parquet''"
  by (simp add: out_path_def str_int_def digit_char_def)

lemma demo_url: "environ demo_world ''ETHEREUM_RPC_URL'' = Some ''http://localhost:8545''"
  by (simp add: demo_world_def)

lemma demo_parse: "py_int (os_getenv demo_world ''ETH_TX_RECENT_BLOCKS'' ''10'') = Inr 3"
  by (simp add: demo_world_def os_getenv_def py_int_3)

lemma demo_head: "eth_block_number (node demo_world) = Inr 100"
  by (simp add: demo_world_def demo_node_def)

lemma demo_window: "[start_of 100 3..100] = [98, 99, 100]"
  by (simp add: start_of_def)

lemma demo_blocks_ok:
  "\<forall>b\<in>set [start_of (int 100) 3..int 100]. rpc_raises (node demo_world) (GetBlock b) = None"
  by (simp add: demo_window rpc_raises_def demo_world_def demo_node_def)

lemma demo_fetched:
  "map (row_of stub_lib) (fetched_txs (node demo_world) [start_of (int 100) 3..int 100]) = demo_rows"
  by (simp add: demo_window fetched_txs_def demo_world_def demo_node_def demo_block_def
      row_of_def demo_rows_def stub_lib_def str_int_def digit_char_def)

lemma demo_run: "snd (ethereum_transactions_recent stub_lib demo_world) = Inr demo_result"
  by (simp add: ethereum_transactions_recent_def get_w3_def os_environ_getitem_def
      os_getenv_def py_int_3 fetch_and_save_def py_range_def start_of_def save_def
      preview_md_def out_path_100 stub_lib_def demo_world_def demo_node_def demo_block_def
      Let_def append_rows_def demo_result_def)

lemma demo_written: "written_rows stub_lib demo_world = Some demo_rows"
  by (rule run_ok(7)[OF demo_url demo_parse demo_head demo_blocks_ok demo_fetched[symmetric]])

lemma demo_tx_counts: "map (tx_count (node demo_world)) [98, 99, 100] = [2, 0, 5]"
  by (simp add: tx_count_def demo_world_def demo_node_def demo_block_def)

lemma demo_index_sorted: "provider_index_sorted (node demo_world) [98, 99, 100]"
  by (simp add: provider_index_sorted_def demo_world_def demo_node_def demo_block_def
      legacy_tx_def eip1559_tx_def)

lemma misordered_written:
  "written_rows stub_lib misordered_world =
     Some [make_row stub_lib 0 ''1700000000'' (legacy_tx 1),
           make_row stub_lib 0 ''1700000000'' (eip1559_tx 0)]"
proof -
  have url: "environ misordered_world ''ETHEREUM_RPC_URL'' = Some ''http://localhost:8545''"
    by (simp add: misordered_world_def demo_world_def)
  have parse: "py_int (os_getenv misordered_world ''ETH_TX_RECENT_BLOCKS'' ''10'') = Inr 3"
    by (simp add: misordered_world_def demo_world_def os_getenv_def py_int_3)
  have head: "eth_block_number (node misordered_world) = Inr 0"
    by (simp add: misordered_world_def misordered_node_def)
  have win: "[start_of 0 3..0] = [0]" by (simp add: start_of_def)
  have ok: "\<forall>b\<in>set [start_of (int 0) 3..int 0].
              rpc_raises (node misordered_world) (GetBlock b) = None"
    by (simp add: win rpc_raises_def misordered_world_def misordered_node_def)
  have rows: "[make_row stub_lib 0 ''1700000000'' (legacy_tx 1),
               make_row stub_lib 0 ''1700000000'' (eip1559_tx 0)] =
              map (row_of stub_lib) (fetched_txs (node misordered_world) [start_of (int 0) 3..int 0])"
    by (simp add: win fetched_txs_def misordered_world_def misordered_node_def row_of_def
        stub_lib_def str_int_def digit_char_def)
  show ?thesis by (rule run_ok(7)[OF url parse head ok rows])
qed

lemma demo_fetched_txs:
  "fetched_txs (node demo_world) [98, 99, 100] =
     [(98, demo_block 98, legacy_tx 0), (98, demo_block 98, eip1559_tx 1),
      (100, demo_block 100, eip1559_tx 0), (100, demo_block 100, legacy_tx 1),
      (100, demo_block 100, eip1559_tx 2), (100, demo_block 100, eip1559_tx 3),
      (100, demo_block 100, legacy_tx 4)]"
  by (simp add: fetched_txs_def demo_world_def demo_node_def demo_block_def)

lemma demo_fee_columns:
  "map max_fee_per_gas demo_rows =
     [PyNone, PyInt 30, PyInt 30, PyNone, PyInt 30, PyInt 30, PyNone]"
  "map max_priority_fee_per_gas demo_rows =
     [PyNone, PyInt 2, PyInt 2, PyNone, PyInt 2, PyInt 2, PyNone]"
  by (simp_all add: demo_rows_def make_row_def getattr_or_none_def legacy_tx_def eip1559_tx_def)

lemma flaky_issued:
  "issued_calls stub_lib flaky_world = [BlockNumber, GetBlock 98, GetBlock 99]"
  by (simp add: issued_calls_def ethereum_transactions_recent_def get_w3_def
      os_environ_getitem_def os_getenv_def py_int_3 fetch_and_save_def py_range_def
      start_of_def flaky_world_def flaky_node_def demo_world_def demo_node_def demo_block_def
      Let_def append_rows_def)

lemma demo_files:
  "files (fst (ethereum_transactions_recent stub_lib demo_world)) =
     [''data/ethereum/transactions/tx_recent_until_100.parquet'' \<mapsto> demo_rows]"
  using run_ok(2)[OF demo_url demo_parse demo_head demo_blocks_ok demo_fetched[symmetric]]
  by (simp add: out_path_100 demo_world_def)

lemma demo_frame:
  "node (fst (ethereum_transactions_recent stub_lib demo_world)) = node demo_world"
  "environ (fst (ethereum_transactions_recent stub_lib demo_world)) = environ demo_world"
  using run_ok(5,6)[OF demo_url demo_parse demo_head demo_blocks_ok demo_fetched[symmetric]]
  by simp_all

lemma default_run_eval:
  "environ w = [''ETHEREUM_RPC_URL'' \<mapsto> u] \<or>
   environ w = [''ETHEREUM_RPC_URL'' \<mapsto> u, ''RECENT_BLOCKS'' \<mapsto> s] \<Longrightarrow>
   node w = demo_node \<Longrightarrow>
   snd (ethereum_transactions_recent stub_lib w) = Inr default_result"
proof -
  assume env: "environ w = [''ETHEREUM_RPC_URL'' \<mapsto> u] \<or>
   environ w = [''ETHEREUM_RPC_URL'' \<mapsto> u, ''RECENT_BLOCKS'' \<mapsto> s]"
    and nd: "node w = demo_node"
  from env have url: "environ w ''ETHEREUM_RPC_URL'' = Some u" by auto
  from env have parse: "py_int (os_getenv w ''ETH_TX_RECENT_BLOCKS'' ''10'') = Inr 10"
    by (auto simp: os_getenv_def py_int_10)
  have head: "eth_block_number (node w) = Inr 100" by (simp add: nd demo_node_def)
  have win: "[start_of 100 10..100] = [91, 92, 93, 94, 95, 96, 97, 98, 99, 100]"
    by (simp add: start_of_def)
  have ok: "\<forall>b\<in>set [start_of (int 100) 10..int 100]. rpc_raises (node w) (GetBlock b) = None"
    by (simp add: win rpc_raises_def nd demo_node_def)
  have rows: "demo_rows = map (row_of stub_lib) (fetched_txs (node w) [start_of (int 100) 10..int 100])"
    by (simp add: win fetched_txs_def nd demo_node_def demo_block_def
      row_of_def demo_rows_def stub_lib_def str_int_def digit_char_def)
  from run_ok(1)[OF url parse head ok rows] show ?thesis
    by (simp add: default_result_def out_path_100 demo_rows_def preview_md_def stub_lib_def)
qed

lemma default_run: "snd (ethereum_transactions_recent stub_lib default_world) = Inr default_result"
  by (rule default_run_eval[where u = "''http://localhost:8545''"])
     (simp_all add: default_world_def demo_world_def)

lemma recent_blocks_run:
  "snd (ethereum_transactions_recent stub_lib recent_blocks_world) = Inr default_result"
  by (rule default_run_eval[where u = "''http://localhost:8545''" and s = "''3''"])
     (simp_all add: recent_blocks_world_def demo_world_def)

section \<open>The properties\<close>

subsection \<open>The block window\<close>

text \<open>
  Claim C1. For every block count \<open>N \<ge> 1\<close> and latest block number \<open>L\<close>, a run that
  completes asks the node for the head and then for the blocks
  \<open>max 0 (L - N + 1), \<dots>, L\<close>, each once and in ascending order: exactly
  \<open>min N (L + 1)\<close> blocks, the first \<open>max 0 (L - N + 1)\<close>, the last \<open>L\<close>.
\<close>

theorem fetched_window:
  assumes "py_int (os_getenv w ''ETH_TX_RECENT_BLOCKS'' ''10'') = Inr N"
    and "eth_block_number (node w) = Inr L"
    and "1 \<le> N"
    and "snd (ethereum_transactions_recent lib w) = Inr res"
  shows "issued_calls lib w = BlockNumber # map GetBlock [max 0 (int L - N + 1)..int L] \<and>
         length [max 0 (int L - N + 1)..int L] = nat (min N (int L + 1)) \<and>
         hd [max 0 (int L - N + 1)..int L] = max 0 (int L - N + 1) \<and>
         last [max 0 (int L - N + 1)..int L] = int L \<and>
         sorted_wrt (<) [max 0 (int L - N + 1)..int L]"
proof -
  from assms(4) obtain u N' L' where
    f: "environ w ''ETHEREUM_RPC_URL'' = Some u"
       "py_int (os_getenv w ''ETH_TX_RECENT_BLOCKS'' ''10'') = Inr N'"
       "eth_block_number (node w) = Inr L'"
       "\<forall>b\<in>set [start_of (int L') N'..int L']. rpc_raises (node w) (GetBlock b) = None"
    by (rule completed_run)
  with assms(1,2) have [simp]: "N' = N" "L' = L" by simp_all
  let ?a = "max 0 (int L - N + 1)"
  have calls: "issued_calls lib w = BlockNumber # map GetBlock [?a..int L]"
    using run_ok(4)[OF f refl, of lib] by (simp add: start_of_def)
  have le: "?a \<le> int L" using assms(3) by simp
  have len: "length [?a..int L] = nat (min N (int L + 1))" using assms(3) by auto
  have h: "hd [?a..int L] = ?a" using le by (simp add: upto_rec1)
  have l: "last [?a..int L] = int L" using le by (simp add: upto_rec2)
  show ?thesis using calls len h l by simp
qed

theorem fetched_window_witness:
  "py_int (os_getenv demo_world ''ETH_TX_RECENT_BLOCKS'' ''10'') = Inr 3 \<and>
   eth_block_number (node demo_world) = Inr 100 \<and>
   snd (ethereum_transactions_recent stub_lib demo_world) = Inr demo_result \<and>
   issued_calls stub_lib demo_world = [BlockNumber, GetBlock 98, GetBlock 99, GetBlock 100] \<and>
   length [98..100 :: int] = nat (min 3 (100 + 1)) \<and>
   hd [98..100 :: int] = 98 \<and> last [98..100 :: int] = 100"
proof -
  have "(1::int) \<le> 3" by simp
  from fetched_window[OF demo_parse demo_head this demo_run]
  show ?thesis using demo_parse demo_head demo_run by simp
qed

subsection \<open>The number of rows\<close>

text \<open>
  Claim C2. For every run that completes, the number of rows of the written batch,
  which the summary reports as \<open>num_transactions\<close>, is the sum of the transaction
  counts of the blocks \<open>max 0 (L - N + 1), \<dots>, L\<close>.
\<close>

theorem record_count:
  assumes "py_int (os_getenv w ''ETH_TX_RECENT_BLOCKS'' ''10'') = Inr N"
    and "eth_block_number (node w) = Inr L"
    and "snd (ethereum_transactions_recent lib w) = Inr res"
  shows "\<exists>rows. written_rows lib w = Some rows \<and>
           num_transactions res = int (length rows) \<and>
           length rows = sum_list (map (tx_count (node w)) [max 0 (int L - N + 1)..int L])"
proof -
  let ?rows = "map (row_of lib) (fetched_txs (node w) [max 0 (int L - N + 1)..int L])"
  note facts = completed_batch[OF assms refl]
  have "num_transactions res = int (length ?rows)" by (subst facts(2)) simp
  moreover have "length ?rows = sum_list (map (tx_count (node w)) [max 0 (int L - N + 1)..int L])"
    by (simp add: length_fetched_txs)
  ultimately show ?thesis using facts(1) by blast
qed

theorem record_count_witness:
  "py_int (os_getenv demo_world ''ETH_TX_RECENT_BLOCKS'' ''10'') = Inr 3 \<and>
   eth_block_number (node demo_world) = Inr 100 \<and>
   snd (ethereum_transactions_recent stub_lib demo_world) = Inr demo_result \<and>
   written_rows stub_lib demo_world = Some demo_rows \<and>
   num_transactions demo_result = int (length demo_rows) \<and>
   length demo_rows = sum_list (map (tx_count (node demo_world)) [98, 99, 100]) \<and>
   map (tx_count (node demo_world)) [98, 99, 100] = [2, 0, 5] \<and>
   length demo_rows = 7"
proof -
  from record_count[OF demo_parse demo_head demo_run]
  have "num_transactions demo_result = int (length demo_rows) \<and>
        length demo_rows = sum_list (map (tx_count (node demo_world)) [98, 99, 100])"
    by (simp add: demo_written)
  then show ?thesis
    using demo_parse demo_head demo_run demo_written demo_tx_counts by simp
qed

subsection \<open>The order of the rows\<close>

text \<open>
  Claim C3, as amended. For every run that completes, the written batch is the rows of
  the fetched transactions in exactly the order in which the node returns them, block
  after block with no re-sort; it is therefore ascending in the block number, and it is
  ascending in \<open>transaction_index\<close> inside each block whenever the node returns the
  transactions of each block of the window in ascending index order.
\<close>

theorem provider_order_kept:
  assumes "py_int (os_getenv w ''ETH_TX_RECENT_BLOCKS'' ''10'') = Inr N"
    and "eth_block_number (node w) = Inr L"
    and "snd (ethereum_transactions_recent lib w) = Inr res"
  shows "\<exists>rows. written_rows lib w = Some rows \<and>
           rows = map (row_of lib) (fetched_txs (node w) [max 0 (int L - N + 1)..int L]) \<and>
           block_ascending rows \<and>
           (provider_index_sorted (node w) [max 0 (int L - N + 1)..int L]
              \<longrightarrow> index_ascending rows)"
proof -
  let ?bs = "[max 0 (int L - N + 1)..int L]"
  let ?rows = "map (row_of lib) (fetched_txs (node w) ?bs)"
  note facts = completed_batch[OF assms refl]
  have asc: "block_ascending ?rows"
    using sorted_fst_fetched_txs[of ?bs "node w"]
    by (simp add: block_ascending_def o_def)
  have idx: "index_ascending ?rows" if "provider_index_sorted (node w) ?bs"
    using index_sorted_fetched_txs[OF _ that]
    by (simp add: index_ascending_def sorted_wrt_map)
  from facts(1) asc idx show ?thesis by blast
qed

theorem provider_order_kept_witness:
  "py_int (os_getenv demo_world ''ETH_TX_RECENT_BLOCKS'' ''10'') = Inr 3 \<and>
   eth_block_number (node demo_world) = Inr 100 \<and>
   snd (ethereum_transactions_recent stub_lib demo_world) = Inr demo_result \<and>
   provider_index_sorted (node demo_world) [98, 99, 100] \<and>
   written_rows stub_lib demo_world = Some demo_rows \<and>
   demo_rows = map (row_of stub_lib) (fetched_txs (node demo_world) [98, 99, 100]) \<and>
   block_ascending demo_rows \<and> index_ascending demo_rows"
proof -
  from provider_order_kept[OF demo_parse demo_head demo_run]
  have "demo_rows = map (row_of stub_lib) (fetched_txs (node demo_world) [98, 99, 100]) \<and>
        block_ascending demo_rows \<and>
        (provider_index_sorted (node demo_world) [98, 99, 100] \<longrightarrow> index_ascending demo_rows)"
    by (simp add: demo_written)
  then show ?thesis
    using demo_parse demo_head demo_run demo_written demo_index_sorted by simp
qed

text \<open>
  Claim C3 as stated asks for ascending \<open>transaction_index\<close> inside each block on every
  completed run. The code never sorts: when the node returns the two transactions of
  block 0 with index 1 before index 0, the run completes and the batch holds them in
  that order.
\<close>

theorem misordered_counterexample:
  "map_option (map transaction_index) (written_rows stub_lib misordered_world) = Some [1, 0] \<and>
   \<not> index_ascending (the (written_rows stub_lib misordered_world))"
  by (simp add: misordered_written index_ascending_def make_row_def legacy_tx_def eip1559_tx_def)

subsection \<open>The columns of a row\<close>

text \<open>
  Claim C4. For every run that completes, the written batch corresponds, position by
  position, to the transactions of the fetched blocks, and every row satisfies the
  schema for its transaction: \<open>max_fee_per_gas\<close> is null if and only if the transaction
  lacks \<open>maxFeePerGas\<close>, \<open>max_priority_fee_per_gas\<close> is null if and only if it lacks
  \<open>maxPriorityFeePerGas\<close>, and every other column is copied from the transaction and its
  block.
\<close>

theorem record_schema:
  assumes "py_int (os_getenv w ''ETH_TX_RECENT_BLOCKS'' ''10'') = Inr N"
    and "eth_block_number (node w) = Inr L"
    and "snd (ethereum_transactions_recent lib w) = Inr res"
  shows "\<exists>rows. written_rows lib w = Some rows \<and>
           list_all2 (schema_ok lib) (fetched_txs (node w) [max 0 (int L - N + 1)..int L]) rows"
proof -
  let ?txs = "fetched_txs (node w) [max 0 (int L - N + 1)..int L]"
  note facts = completed_batch[OF assms refl]
  have "list_all2 (schema_ok lib) ?txs (map (row_of lib) ?txs)"
    by (simp add: list_all2_map2 list_all2_same schema_ok_row_of)
  with facts(1) show ?thesis by blast
qed

theorem record_schema_witness:
  "py_int (os_getenv demo_world ''ETH_TX_RECENT_BLOCKS'' ''10'') = Inr 3 \<and>
   eth_block_number (node demo_world) = Inr 100 \<and>
   snd (ethereum_transactions_recent stub_lib demo_world) = Inr demo_result \<and>
   written_rows stub_lib demo_world = Some demo_rows \<and>
   list_all2 (schema_ok stub_lib) (fetched_txs (node demo_world) [98, 99, 100]) demo_rows \<and>
   map (\<lambda>x. maxFeePerGas (snd (snd x))) (fetched_txs (node demo_world) [98, 99, 100]) =
     [None, Some 30, Some 30, None, Some 30, Some 30, None] \<and>
   map max_fee_per_gas demo_rows =
     [PyNone, PyInt 30, PyInt 30, PyNone, PyInt 30, PyInt 30, PyNone]"
proof -
  from record_schema[OF demo_parse demo_head demo_run]
  have "list_all2 (schema_ok stub_lib) (fetched_txs (node demo_world) [98, 99, 100]) demo_rows"
    by (simp add: demo_written)
  moreover have "map (\<lambda>x. maxFeePerGas (snd (snd x))) (fetched_txs (node demo_world) [98, 99, 100]) =
     [None, Some 30, Some 30, None, Some 30, Some 30, None]"
    by (simp add: demo_fetched_txs legacy_tx_def eip1559_tx_def)
  ultimately show ?thesis
    using demo_parse demo_head demo_run demo_written demo_fee_columns(1) by simp
qed

subsection \<open>A failing RPC call\<close>

text \<open>
  Claim C5. If a call that the run issues raises, be it the head query or the fetch of a
  block in the middle of the window, then the run ends with exactly that exception, the
  failing call is the last one issued, and the file system is as it was: no file is
  written and no directory created, so the rows built from earlier blocks are not kept.
\<close>

theorem rpc_failure_aborts:
  assumes mem: "c \<in> set (issued_calls lib w)"
    and raises: "rpc_raises (node w) c = Some e"
  shows "snd (ethereum_transactions_recent lib w) = Inl e \<and>
         last (issued_calls lib w) = c \<and>
         files (fst (ethereum_transactions_recent lib w)) = files w \<and>
         dirs (fst (ethereum_transactions_recent lib w)) = dirs w \<and>
         written_rows lib w = None"
proof -
  let ?run = "ethereum_transactions_recent lib w"
  have goal: "snd ?run = Inl e \<and> last (issued_calls lib w) = c \<and>
              files (fst ?run) = files w \<and> dirs (fst ?run) = dirs w"
  proof (cases "environ w ''ETHEREUM_RPC_URL''")
    case None
    from issued_calls_unchanged[OF run_no_url[OF None]] mem show ?thesis by simp
  next
    case (Some u)
    show ?thesis
    proof (cases "py_int (os_getenv w ''ETH_TX_RECENT_BLOCKS'' ''10'')")
      case (Inl e')
      from issued_calls_unchanged[OF run_bad_int[OF Some Inl]] mem show ?thesis by simp
    next
      case (Inr N)
      note eq = run_parsed[OF Some Inr, of lib]
      show ?thesis
      proof (cases "eth_block_number (node w)")
        case (Inl e')
        have run: "?run = (w\<lparr>rpc_calls := rpc_calls w @ [BlockNumber]\<rparr>, Inl e')"
          by (simp add: eq fetch_and_save_head_fail[OF Inl])
        then have "issued_calls lib w = [BlockNumber]" by (simp add: issued_calls_def)
        with mem raises Inl run show ?thesis by (simp add: rpc_raises_def)
      next
        case head: (Inr L)
        let ?bs = "[start_of (int L) N..int L]"
        obtain w' r where wr: "fetch_and_save lib N w = (w', r)"
          by (cases "fetch_and_save lib N w")
        show ?thesis
        proof (cases "\<forall>b\<in>set ?bs. rpc_raises (node w) (GetBlock b) = None")
          case True
          from run_ok(4)[OF Some Inr head True refl, of lib]
          have "issued_calls lib w = BlockNumber # map GetBlock ?bs" .
          with mem raises head True show ?thesis by (auto simp: rpc_raises_def)
        next
          case False
          then obtain b where b: "b \<in> set ?bs" "rpc_raises (node w) (GetBlock b) \<noteq> None"
            by blast
          from fetch_and_save_block_fail[OF head b wr]
          obtain pre x e' post where
            h: "?bs = pre @ x # post"
               "\<forall>y\<in>set pre. rpc_raises (node w) (GetBlock y) = None"
               "rpc_raises (node w) (GetBlock x) = Some e'" "r = Inl e'"
               "rpc_calls w' = rpc_calls w @ BlockNumber # map GetBlock (pre @ [x])"
               "files w' = files w" "dirs w' = dirs w"
            by blast
          have calls: "issued_calls lib w = BlockNumber # map GetBlock (pre @ [x])"
            by (simp add: issued_calls_def eq wr h(5))
          have "rpc_raises (node w) BlockNumber = None" using head by (simp add: rpc_raises_def)
          with mem raises calls h(2) have "c = GetBlock x" by auto
          with raises h(3) have "e' = e" by simp
          with \<open>c = GetBlock x\<close> calls h show ?thesis by (simp add: eq wr)
        qed
      qed
    qed
  qed
  then show ?thesis by (simp add: written_rows_raised)
qed

theorem rpc_failure_aborts_witness:
  "GetBlock 99 \<in> set (issued_calls stub_lib flaky_world) \<and>
   rpc_raises (node flaky_world) (GetBlock 99) = Some (ProviderError ''timeout'') \<and>
   issued_calls stub_lib flaky_world = [BlockNumber, GetBlock 98, GetBlock 99] \<and>
   snd (ethereum_transactions_recent stub_lib flaky_world) = Inl (ProviderError ''timeout'') \<and>
   last (issued_calls stub_lib flaky_world) = GetBlock 99 \<and>
   files (fst (ethereum_transactions_recent stub_lib flaky_world)) = files flaky_world \<and>
   dirs (fst (ethereum_transactions_recent stub_lib flaky_world)) = dirs flaky_world \<and>
   written_rows stub_lib flaky_world = None"
proof -
  have m: "GetBlock 99 \<in> set (issued_calls stub_lib flaky_world)"
    by (simp add: flaky_issued)
  have r: "rpc_raises (node flaky_world) (GetBlock 99) = Some (ProviderError ''timeout'')"
    by (simp add: rpc_raises_def flaky_world_def flaky_node_def)
  from rpc_failure_aborts[OF m r] show ?thesis using m r flaky_issued by simp
qed

subsection \<open>A missing endpoint\<close>

text \<open>
  Claim C6. If the endpoint variable is absent from the environment, the run raises
  \<open>KeyError\<close> and leaves the world untouched: no call has been issued, no file written
  and no directory created.
\<close>

theorem missing_endpoint_aborts:
  assumes "environ w ''ETHEREUM_RPC_URL'' = None"
  shows "ethereum_transactions_recent lib w = (w, Inl (KeyError ''ETHEREUM_RPC_URL'')) \<and>
         issued_calls lib w = [] \<and> written_rows lib w = None"
  using run_no_url[OF assms, of lib]
  by (simp add: issued_calls_def written_rows_def)

theorem missing_endpoint_aborts_witness:
  "environ no_config_world ''ETHEREUM_RPC_URL'' = None \<and>
   ethereum_transactions_recent stub_lib no_config_world =
     (no_config_world, Inl (KeyError ''ETHEREUM_RPC_URL'')) \<and>
   issued_calls stub_lib no_config_world = [] \<and>
   written_rows stub_lib no_config_world = None"
proof -
  have h: "environ no_config_world ''ETHEREUM_RPC_URL'' = None"
    by (simp add: no_config_world_def)
  from missing_endpoint_aborts[OF h] show ?thesis using h by simp
qed

subsection \<open>The output path and a second run\<close>

text \<open>
  Claim C7. The path of the output is \<open>out_path L\<close>, a function of the latest block
  number alone, and a completed run stores its batch there. A run in any world with the
  same node and the same environment completes with the same summary and stores the same
  batch at the same path, whatever was there before; started from the world the first
  run left, it leaves the files as they are.
\<close>

theorem rerun_idempotent:
  assumes fin: "snd (ethereum_transactions_recent lib w) = Inr res"
    and head: "eth_block_number (node w) = Inr L"
    and same_node: "node w2 = node w"
    and same_env: "environ w2 = environ w"
  shows "result_file res = out_path (int L) \<and>
         written_rows lib w \<noteq> None \<and>
         files (fst (ethereum_transactions_recent lib w)) =
           (files w)(out_path (int L) := written_rows lib w) \<and>
         snd (ethereum_transactions_recent lib w2) = Inr res \<and>
         files (fst (ethereum_transactions_recent lib w2)) =
           (files w2)(out_path (int L) := written_rows lib w) \<and>
         (files w2 = files (fst (ethereum_transactions_recent lib w)) \<longrightarrow>
            files (fst (ethereum_transactions_recent lib w2)) = files w2)"
proof -
  from fin obtain u N L' where
    f': "environ w ''ETHEREUM_RPC_URL'' = Some u"
       "py_int (os_getenv w ''ETH_TX_RECENT_BLOCKS'' ''10'') = Inr N"
       "eth_block_number (node w) = Inr L'"
       "\<forall>b\<in>set [start_of (int L') N..int L']. rpc_raises (node w) (GetBlock b) = None"
    by (rule completed_run)
  with head have "L' = L" by simp
  with f' have
    f: "environ w ''ETHEREUM_RPC_URL'' = Some u"
       "py_int (os_getenv w ''ETH_TX_RECENT_BLOCKS'' ''10'') = Inr N"
       "eth_block_number (node w) = Inr L"
       "\<forall>b\<in>set [start_of (int L) N..int L]. rpc_raises (node w) (GetBlock b) = None"
    by simp_all
  let ?rows = "map (row_of lib) (fetched_txs (node w) [start_of (int L) N..int L])"
  note one = run_ok[OF f refl, of lib]
  have f2: "environ w2 ''ETHEREUM_RPC_URL'' = Some u"
       "py_int (os_getenv w2 ''ETH_TX_RECENT_BLOCKS'' ''10'') = Inr N"
       "eth_block_number (node w2) = Inr L"
       "\<forall>b\<in>set [start_of (int L) N..int L]. rpc_raises (node w2) (GetBlock b) = None"
    using f by (simp_all add: same_node same_env os_getenv_def)
  have rows2: "?rows = map (row_of lib) (fetched_txs (node w2) [start_of (int L) N..int L])"
    by (simp add: same_node)
  note two = run_ok[OF f2 rows2]
  from one(1) fin have res: "res = \<lparr> blocks_scanned = N, latest_block = int L,
                 num_transactions = int (length ?rows), preview = preview_md lib ?rows,
                 result_file = out_path (int L) \<rparr>" by simp
  have p: "result_file res = out_path (int L)" by (subst res) simp
  have w1_files: "files (fst (ethereum_transactions_recent lib w)) =
      (files w)(out_path (int L) := written_rows lib w)"
    by (simp add: one(2) one(7))
  have w2_files: "files (fst (ethereum_transactions_recent lib w2)) =
      (files w2)(out_path (int L) := written_rows lib w)"
    by (simp add: two(2) one(7))
  have again: "files (fst (ethereum_transactions_recent lib w2)) = files w2"
    if "files w2 = files (fst (ethereum_transactions_recent lib w))"
    using that by (simp add: two(2) one(2))
  show ?thesis using p one(7) two(1) res w1_files w2_files again by simp
qed

theorem rerun_idempotent_witness:
  "snd (ethereum_transactions_recent stub_lib demo_world) = Inr demo_result \<and>
   eth_block_number (node demo_world) = Inr 100 \<and>
   result_file demo_result = out_path 100 \<and>
   snd (ethereum_transactions_recent stub_lib
          (fst (ethereum_transactions_recent stub_lib demo_world))) = Inr demo_result \<and>
   files (fst (ethereum_transactions_recent stub_lib
                 (fst (ethereum_transactions_recent stub_lib demo_world)))) =
     files (fst (ethereum_transactions_recent stub_lib demo_world)) \<and>
   files (fst (ethereum_transactions_recent stub_lib demo_world))
     ''data/ethereum/transactions/tx_recent_until_100.parquet'' = Some demo_rows"
proof -
  from rerun_idempotent[OF demo_run demo_head demo_frame]
  show ?thesis
    using demo_run demo_head by (simp add: demo_files demo_written out_path_100)
qed

subsection \<open>The names of the variables\<close>

text \<open>
  Claim C8, as amended. The required endpoint variable is \<open>ETHEREUM_RPC_URL\<close>: without
  it the run raises \<open>KeyError\<close> for that name, and a run that completes has it set. The
  block count is read from the optional variable \<open>ETH_TX_RECENT_BLOCKS\<close>: a completed
  run reports the integer that variable holds, and 10 when the variable is absent.
\<close>

theorem configuration_names:
  "(environ w ''ETHEREUM_RPC_URL'' = None \<longrightarrow>
      snd (ethereum_transactions_recent lib w) = Inl (KeyError ''ETHEREUM_RPC_URL'')) \<and>
   (snd (ethereum_transactions_recent lib w) = Inr res \<longrightarrow>
      environ w ''ETHEREUM_RPC_URL'' \<noteq> None \<and>
      (case environ w ''ETH_TX_RECENT_BLOCKS'' of
         None \<Rightarrow> blocks_scanned res = 10
       | Some s \<Rightarrow> py_int s = Inr (blocks_scanned res)))"
proof -
  have a: "snd (ethereum_transactions_recent lib w) = Inl (KeyError ''ETHEREUM_RPC_URL'')"
    if "environ w ''ETHEREUM_RPC_URL'' = None"
    using that by (simp add: run_no_url)
  have b: "environ w ''ETHEREUM_RPC_URL'' \<noteq> None \<and>
      (case environ w ''ETH_TX_RECENT_BLOCKS'' of
         None \<Rightarrow> blocks_scanned res = 10
       | Some s \<Rightarrow> py_int s = Inr (blocks_scanned res))"
    if fin: "snd (ethereum_transactions_recent lib w) = Inr res"
  proof -
    from fin obtain u N L where
      f: "environ w ''ETHEREUM_RPC_URL'' = Some u"
         "py_int (os_getenv w ''ETH_TX_RECENT_BLOCKS'' ''10'') = Inr N"
         "eth_block_number (node w) = Inr L"
         "\<forall>b\<in>set [start_of (int L) N..int L]. rpc_raises (node w) (GetBlock b) = None"
      by (rule completed_run)
    from run_ok(1)[OF f refl, of lib] fin have "blocks_scanned res = N" by auto
    with f(1,2) show ?thesis
      by (auto simp: os_getenv_def py_int_10 split: option.splits)
  qed
  from a b show ?thesis by blast
qed

theorem configuration_names_witness:
  "environ no_config_world ''ETHEREUM_RPC_URL'' = None \<and>
   snd (ethereum_transactions_recent stub_lib no_config_world) =
     Inl (KeyError ''ETHEREUM_RPC_URL'') \<and>
   snd (ethereum_transactions_recent stub_lib default_world) = Inr default_result \<and>
   environ default_world ''ETH_TX_RECENT_BLOCKS'' = None \<and>
   blocks_scanned default_result = 10 \<and>
   snd (ethereum_transactions_recent stub_lib demo_world) = Inr demo_result \<and>
   environ demo_world ''ETH_TX_RECENT_BLOCKS'' = Some ''3'' \<and>
   py_int ''3'' = Inr (blocks_scanned demo_result)"
proof -
  have h: "environ no_config_world ''ETHEREUM_RPC_URL'' = None"
    by (simp add: no_config_world_def)
  have d: "environ default_world ''ETH_TX_RECENT_BLOCKS'' = None"
    by (simp add: default_world_def)
  have e: "environ demo_world ''ETH_TX_RECENT_BLOCKS'' = Some ''3''"
    by (simp add: demo_world_def)
  from configuration_names[of no_config_world stub_lib default_result]
       configuration_names[of default_world stub_lib default_result]
       configuration_names[of demo_world stub_lib demo_result]
  show ?thesis using h d e default_run demo_run by simp
qed

text \<open>
  Claim C8 as stated names the variables \<open>RPC_URL\<close> and \<open>RECENT_BLOCKS\<close>. With the
  endpoint under \<open>RPC_URL\<close> the run raises \<open>KeyError\<close> for \<open>ETHEREUM_RPC_URL\<close>; with
  \<open>RECENT_BLOCKS\<close> set to 3 the run scans the default of 10 blocks.
\<close>

theorem short_names_counterexample:
  "environ short_names_world ''RPC_URL'' = Some ''http://localhost:8545'' \<and>
   snd (ethereum_transactions_recent stub_lib short_names_world) =
     Inl (KeyError ''ETHEREUM_RPC_URL'') \<and>
   environ recent_blocks_world ''RECENT_BLOCKS'' = Some ''3'' \<and>
   snd (ethereum_transactions_recent stub_lib recent_blocks_world) = Inr default_result \<and>
   blocks_scanned default_result = 10"
proof -
  have "environ short_names_world ''ETHEREUM_RPC_URL'' = None"
    by (simp add: short_names_world_def)
  then have "snd (ethereum_transactions_recent stub_lib short_names_world) =
     Inl (KeyError ''ETHEREUM_RPC_URL'')" by (simp add: run_no_url)
  then show ?thesis
    using recent_blocks_run
    by (simp add: short_names_world_def recent_blocks_world_def default_result_def)
qed

subsection \<open>A block count that is not positive\<close>

text \<open>
  Claim C9. For every block count \<open>N \<le> 0\<close> and latest block \<open>L \<ge> 0\<close> the run does not
  raise: the start block \<open>max 0 (L - N + 1)\<close> exceeds \<open>L\<close>, the head query is the only
  call, an empty batch is written at \<open>out_path L\<close>, and the summary reports
  \<open>blocks_scanned = N\<close> and \<open>num_transactions = 0\<close>.
\<close>

theorem nonpositive_count:
  assumes url: "environ w ''ETHEREUM_RPC_URL'' = Some u"
    and parse: "py_int (os_getenv w ''ETH_TX_RECENT_BLOCKS'' ''10'') = Inr N"
    and nonpos: "N \<le> 0"
    and head: "eth_block_number (node w) = Inr L"
  shows "int L < max 0 (int L - N + 1) \<and>
         issued_calls lib w = [BlockNumber] \<and>
         snd (ethereum_transactions_recent lib w) =
           Inr \<lparr> blocks_scanned = N, latest_block = int L, num_transactions = 0,
                 preview = ''(no rows)'', result_file = out_path (int L) \<rparr> \<and>
         files (fst (ethereum_transactions_recent lib w)) = (files w)(out_path (int L) \<mapsto> []) \<and>
         written_rows lib w = Some []"
proof -
  have gt: "int L < max 0 (int L - N + 1)" using nonpos by simp
  then have empty: "[start_of (int L) N..int L] = []" by (simp add: start_of_def)
  have ok: "\<forall>b\<in>set [start_of (int L) N..int L]. rpc_raises (node w) (GetBlock b) = None"
    by (simp add: empty)
  have rows: "[] = map (row_of lib) (fetched_txs (node w) [start_of (int L) N..int L])"
    by (simp add: empty fetched_txs_def)
  note facts = run_ok[OF url parse head ok rows]
  show ?thesis
    using gt facts(1,2,4,7) by (simp add: empty preview_md_def)
qed

theorem nonpositive_count_witness:
  "environ negative_count_world ''ETHEREUM_RPC_URL'' = Some ''http://localhost:8545'' \<and>
   py_int (os_getenv negative_count_world ''ETH_TX_RECENT_BLOCKS'' ''10'') = Inr (- 2) \<and>
   eth_block_number (node negative_count_world) = Inr 100 \<and>
   issued_calls stub_lib negative_count_world = [BlockNumber] \<and>
   snd (ethereum_transactions_recent stub_lib negative_count_world) =
     Inr \<lparr> blocks_scanned = - 2, latest_block = 100, num_transactions = 0,
           preview = ''(no rows)'',
           result_file = ''data/ethereum/transactions/tx_recent_until_100.parquet'' \<rparr> \<and>
   written_rows stub_lib negative_count_world = Some []"
proof -
  have u: "environ negative_count_world ''ETHEREUM_RPC_URL'' = Some ''http://localhost:8545''"
    by (simp add: negative_count_world_def)
  have p: "py_int (os_getenv negative_count_world ''ETH_TX_RECENT_BLOCKS'' ''10'') = Inr (- 2)"
    by (simp add: negative_count_world_def os_getenv_def py_int_minus_2)
  have n: "(- 2 :: int) \<le> 0" by simp
  have h: "eth_block_number (node negative_count_world) = Inr 100"
    by (simp add: negative_count_world_def demo_world_def demo_node_def)
  from nonpositive_count[OF u p n h, of stub_lib]
  show ?thesis using u p h by (simp add: out_path_100)
qed

subsection \<open>Block numbers and timestamps of the rows\<close>

text \<open>
  Claim C10. For every row of the batch of a completed run, the block number lies
  between \<open>max 0 (L - N + 1)\<close> and \<open>L\<close> and the timestamp is the ISO conversion of the
  unix timestamp of that block; the rows of one block are contiguous and carry equal
  timestamps.
\<close>

theorem rows_within_window:
  assumes "py_int (os_getenv w ''ETH_TX_RECENT_BLOCKS'' ''10'') = Inr N"
    and "eth_block_number (node w) = Inr L"
    and "snd (ethereum_transactions_recent lib w) = Inr res"
  shows "\<exists>rows. written_rows lib w = Some rows \<and>
           (\<forall>r\<in>set rows.
              max 0 (int L - N + 1) \<le> block_number r \<and> block_number r \<le> int L \<and>
              (\<exists>blk. eth_get_block (node w) (block_number r) = Inr blk \<and>
                     block_timestamp r = isoformat_utc lib (timestamp blk))) \<and>
           contiguous_blocks rows \<and>
           (\<forall>r\<in>set rows. \<forall>s\<in>set rows.
              block_number r = block_number s \<longrightarrow> block_timestamp r = block_timestamp s)"
proof -
  let ?bs = "[max 0 (int L - N + 1)..int L]"
  let ?rows = "map (row_of lib) (fetched_txs (node w) ?bs)"
  note facts = completed_batch[OF assms refl]
  have each: "max 0 (int L - N + 1) \<le> block_number r \<and> block_number r \<le> int L \<and>
              (\<exists>blk. eth_get_block (node w) (block_number r) = Inr blk \<and>
                     block_timestamp r = isoformat_utc lib (timestamp blk))"
    if "r \<in> set ?rows" for r
  proof -
    from that obtain b blk t where
      x: "(b, blk, t) \<in> set (fetched_txs (node w) ?bs)" and r: "r = row_of lib (b, blk, t)"
      by auto
    from fetched_txs_mem[OF x] have "b \<in> set ?bs" "eth_get_block (node w) b = Inr blk"
      by simp_all
    then show ?thesis by (simp add: r row_of_def make_row_def)
  qed
  have srt: "sorted (map block_number ?rows)"
    using sorted_fst_fetched_txs[of ?bs "node w"] by (simp add: o_def)
  have contig: "contiguous_blocks ?rows"
    using srt by (rule contiguous_if_sorted)
  have ts: "block_timestamp r = block_timestamp s"
    if "r \<in> set ?rows" "s \<in> set ?rows" "block_number r = block_number s" for r s
    using each[OF that(1)] each[OF that(2)] that(3) by auto
  from facts(1) each contig ts show ?thesis by blast
qed

theorem rows_within_window_witness:
  "py_int (os_getenv demo_world ''ETH_TX_RECENT_BLOCKS'' ''10'') = Inr 3 \<and>
   eth_block_number (node demo_world) = Inr 100 \<and>
   snd (ethereum_transactions_recent stub_lib demo_world) = Inr demo_result \<and>
   written_rows stub_lib demo_world = Some demo_rows \<and>
   map block_number demo_rows = [98, 98, 100, 100, 100, 100, 100] \<and>
   map block_timestamp demo_rows =
     [''1700000000'', ''1700000000'', ''1700000024'', ''1700000024'', ''1700000024'',
      ''1700000024'', ''1700000024''] \<and>
   contiguous_blocks demo_rows"
proof -
  from rows_within_window[OF demo_parse demo_head demo_run]
  have "contiguous_blocks demo_rows" by (simp add: demo_written)
  moreover have "map block_number demo_rows = [98, 98, 100, 100, 100, 100, 100]"
    by (simp add: demo_rows_def make_row_def)
  moreover have "map block_timestamp demo_rows =
     [''1700000000'', ''1700000000'', ''1700000024'', ''1700000024'', ''1700000024'',
      ''1700000024'', ''1700000024'']"
    by (simp add: demo_rows_def make_row_def)
  ultimately show ?thesis using demo_parse demo_head demo_run demo_written by simp
qed

end
